theory Spec2Isabelle
  imports Complex_Main
begin

section \<open>Numeric model\<close>

text \<open>
  The program computes with Python's \<^verbatim>\<open>float\<close> and \<^verbatim>\<open>complex\<close>. Here a float is a
  \<^typ>\<open>real\<close> and a complex number a \<^typ>\<open>complex\<close>: arithmetic is exact and unbounded.
  Rounding, the finite range of a double (and with it the \<^verbatim>\<open>OverflowError\<close> that
  \<^verbatim>\<open>**\<close> and \<^verbatim>\<open>abs\<close> raise at that range), infinities, NaN and the sign of zero are
  outside this embedding. The exponent \<open>d\<close>, the bound \<open>n\<close> and the iteration count
  are the unsigned integers of the specification (\<^typ>\<open>nat\<close>); the integers the colour
  functions produce are Python ints (\<^typ>\<open>int\<close>).
\<close>

subsection \<open>Constants\<close>

definition CONST_D :: nat where
  "CONST_D = 4"


definition CONST_MIN_WIDTH :: int where
  "CONST_MIN_WIDTH = - 2"

definition CONST_MAX_WIDTH :: int where
  "CONST_MAX_WIDTH = 1"

definition CONST_MIN_HEIGHT :: int where
  "CONST_MIN_HEIGHT = - 1"

definition CONST_MAX_HEIGHT :: int where
  "CONST_MAX_HEIGHT = 1"

definition CONST_WIDTH_RESOLUTION :: int where
  "CONST_WIDTH_RESOLUTION = 1500"

definition CONST_HEIGHT_RESOLUTION :: int where
  "CONST_HEIGHT_RESOLUTION = 1000"

text \<open>\<^verbatim>\<open>/\<close> between two ints is the division of floats.\<close>

definition CONST_WIDTH_SPACING :: real where
  "CONST_WIDTH_SPACING =
     \<bar>real_of_int (CONST_MAX_WIDTH - CONST_MIN_WIDTH) / real_of_int CONST_WIDTH_RESOLUTION\<bar>"

definition CONST_HEIGHT_SPACING :: real where
  "CONST_HEIGHT_SPACING =
     \<bar>real_of_int (CONST_MAX_HEIGHT - CONST_MIN_HEIGHT) / real_of_int CONST_HEIGHT_RESOLUTION\<bar>"

definition CONST_DIVERGENCE_LIMIT :: real where
  "CONST_DIVERGENCE_LIMIT = 2"

subsection \<open>The escape-time evaluator\<close>

text \<open>\<^verbatim>\<open>zeta_n = zeta_n_minus_one ** d + c\<close>\<close>

definition calc_zeta :: "complex \<Rightarrow> complex \<Rightarrow> nat \<Rightarrow> complex" where
  "calc_zeta zeta_n_minus_one c d = zeta_n_minus_one ^ d + c"

text \<open>
  The body of \<^verbatim>\<open>for i in range(1, n + 1)\<close>, entered with the loop variable \<open>i\<close> and
  the accumulator \<open>zeta\<close>. The loop ends when \<open>i\<close> has passed \<open>n\<close>, and the function
  then returns \<^verbatim>\<open>(zeta, n)\<close>; inside the loop it returns \<^verbatim>\<open>(zeta, i)\<close> at once when
  \<^verbatim>\<open>abs(zeta) > divergence_limit\<close>.
\<close>

function calc_zeta_n_loop ::
  "complex \<Rightarrow> nat \<Rightarrow> nat \<Rightarrow> real \<Rightarrow> nat \<Rightarrow> complex \<Rightarrow> complex \<times> nat" where
  "calc_zeta_n_loop c d n divergence_limit i zeta =
     (if i < n + 1 then
        (let zeta' = calc_zeta zeta c d in
         if cmod zeta' > divergence_limit then (zeta', i)
         else calc_zeta_n_loop c d n divergence_limit (i + 1) zeta')
      else (zeta, n))"
  by pat_completeness auto
termination
  by (relation "measure (\<lambda>(c, d, n, divergence_limit, i, zeta). n + 1 - i)") auto

declare calc_zeta_n_loop.simps [simp del]

text \<open>
  \<^verbatim>\<open>zeta = 0\<close>, then the loop from \<open>i = 1\<close>. The defaults of the parameters
  (\<open>CONST_D\<close>, \<open>CONST_N\<close>, \<open>CONST_DIVERGENCE_LIMIT\<close>) are what \<^verbatim>\<open>main\<close> calls it with.
\<close>

definition calc_zeta_n :: "complex \<Rightarrow> nat \<Rightarrow> nat \<Rightarrow> real \<Rightarrow> complex \<times> nat" where
  "calc_zeta_n c d n divergence_limit = calc_zeta_n_loop c d n divergence_limit 1 0"

text \<open>The value of the accumulator after \<open>k\<close> steps from \<open>0\<close>.\<close>

definition orbit :: "complex \<Rightarrow> nat \<Rightarrow> nat \<Rightarrow> complex" where
  "orbit c d k = ((\<lambda>zeta. calc_zeta zeta c d) ^^ k) 0"

text \<open>
  The evaluator as the specification words it: the first iteration in \<open>1..n_max\<close> whose
  magnitude is strictly above the limit ends the run with that value and that index;
  with no such iteration the run ends after \<open>n_max\<close> steps with \<open>(zeta, n_max)\<close>.
\<close>

definition run_spec :: "complex \<Rightarrow> nat \<Rightarrow> nat \<Rightarrow> real \<Rightarrow> complex \<times> nat" where
  "run_spec c d n_max divergence_limit =
     (case List.find (\<lambda>i. cmod (orbit c d i) > divergence_limit) [1..<n_max + 1] of
        Some i \<Rightarrow> (orbit c d i, i)
      | None \<Rightarrow> (orbit c d n_max, n_max))"

subsection \<open>Conversion to an integer\<close>

text \<open>\<^verbatim>\<open>int(x)\<close> on a float cuts the fraction off, towards zero.\<close>

definition py_int :: "real \<Rightarrow> int" where
  "py_int x = (if 0 \<le> x then \<lfloor>x\<rfloor> else \<lceil>x\<rceil>)"

subsection \<open>The coordinate mapper\<close>

definition coord_to_complex :: "real \<times> real \<Rightarrow> complex" where
  "coord_to_complex coord = Complex (fst coord) (snd coord)"

definition coord_to_pixel :: "real \<times> real \<Rightarrow> int \<times> int" where
  "coord_to_pixel coord =
     (case coord of (x, y) \<Rightarrow>
        (let pixel_x = py_int \<bar>(x - real_of_int CONST_MIN_WIDTH) / CONST_WIDTH_SPACING\<bar>;
             pixel_y = py_int \<bar>(y - real_of_int CONST_MIN_HEIGHT) / CONST_HEIGHT_SPACING\<bar>
         in (pixel_x, pixel_y)))"

subsection \<open>The colorizer\<close>





section \<open>The evaluator loop\<close>

text \<open>
  The loop entered at \<open>i\<close> with the accumulator at step \<open>i - 1\<close> of the orbit looks for
  the first index from \<open>i\<close> on whose magnitude is above the limit.
\<close>

lemma calc_zeta_n_loop_find:
  "1 \<le> i \<Longrightarrow> zeta = orbit c d (i - 1) \<Longrightarrow>
   calc_zeta_n_loop c d n L i zeta =
     (case List.find (\<lambda>j. cmod (orbit c d j) > L) [i..<n + 1] of
        Some j \<Rightarrow> (orbit c d j, j)
      | None \<Rightarrow> (if i \<le> n then orbit c d n else zeta, n))"
proof (induction c d n L i zeta rule: calc_zeta_n_loop.induct)
  case (1 c d n L i zeta)
  show ?case
  proof (cases "i < n + 1")
    case False
    then show ?thesis by (simp add: calc_zeta_n_loop.simps)
  next
    case True
    have step: "calc_zeta zeta c d = orbit c d i"
      using "1.prems" by (cases i) (simp_all add: orbit_def)
    have up: "[i..<n + 1] = i # [i + 1..<n + 1]"
      using True by (simp add: upt_conv_Cons)
    show ?thesis
    proof (cases "cmod (orbit c d i) > L")
      case True
      then show ?thesis
        using \<open>i < n + 1\<close> step up by (simp add: calc_zeta_n_loop.simps [of c d n L i zeta])
    next
      case False
      have "calc_zeta_n_loop c d n L i zeta = calc_zeta_n_loop c d n L (i + 1) (orbit c d i)"
        using \<open>i < n + 1\<close> step False by (simp add: calc_zeta_n_loop.simps [of c d n L i zeta])
      also have "\<dots> = (case List.find (\<lambda>j. cmod (orbit c d j) > L) [i + 1..<n + 1] of
        Some j \<Rightarrow> (orbit c d j, j)
      | None \<Rightarrow> (if i + 1 \<le> n then orbit c d n else orbit c d i, n))"
        using "1.IH" [of "calc_zeta zeta c d"] \<open>i < n + 1\<close> step False by simp
      also have "\<dots> = (case List.find (\<lambda>j. cmod (orbit c d j) > L) [i..<n + 1] of
        Some j \<Rightarrow> (orbit c d j, j)
      | None \<Rightarrow> (if i \<le> n then orbit c d n else zeta, n))"
      proof (cases "i + 1 \<le> n")
        case True
        then show ?thesis using False up by simp
      next
        case last: False
        with \<open>i < n + 1\<close> have "i = n" by simp
        then show ?thesis using False up by simp
      qed
      finally show ?thesis .
    qed
  qed
qed

lemma calc_zeta_n_run_spec: "calc_zeta_n c d n L = run_spec c d n L"
proof -
  have "orbit c d 0 = 0" by (simp add: orbit_def)
  then show ?thesis
    by (cases "n = 0") (simp_all add: calc_zeta_n_def run_spec_def calc_zeta_n_loop_find)
qed



text \<open>The first index of an interval that satisfies a predicate.\<close>

lemma find_upt_first:
  assumes "a \<le> i" "i < b" "P i" "\<forall>j. a \<le> j \<and> j < i \<longrightarrow> \<not> P j"
  shows "List.find P [a..<b] = Some i"
  using assms
proof (induction "i - a" arbitrary: a)
  case 0
  then have "a = i" by simp
  with 0 show ?case by (simp add: upt_conv_Cons)
next
  case (Suc k)
  then have "a < i" "a < b" "\<not> P a" by auto
  moreover have "List.find P [Suc a..<b] = Some i"
    using Suc by (intro Suc.hyps) auto
  ultimately show ?case by (simp add: upt_conv_Cons)
qed

lemma find_upt_none:
  "(\<forall>j. a \<le> j \<and> j < b \<longrightarrow> \<not> P j) \<Longrightarrow> List.find P [a..<b] = None"
  by (simp add: find_None_iff)


text \<open>The two outcomes of a run, written out.\<close>

lemma calc_zeta_n_diverges:
  assumes "1 \<le> i" "i \<le> n" "L < cmod (orbit c d i)"
    and "\<forall>j. 1 \<le> j \<and> j < i \<longrightarrow> cmod (orbit c d j) \<le> L"
  shows "calc_zeta_n c d n L = (orbit c d i, i)"
proof -
  have "List.find (\<lambda>i. L < cmod (orbit c d i)) [1..<n + 1] = Some i"
    using assms by (intro find_upt_first) (auto simp: not_less)
  then show ?thesis by (simp add: calc_zeta_n_run_spec run_spec_def)
qed

lemma calc_zeta_n_bounded:
  assumes "\<forall>j. 1 \<le> j \<and> j \<le> n \<longrightarrow> cmod (orbit c d j) \<le> L"
  shows "calc_zeta_n c d n L = (orbit c d n, n)"
proof -
  have "List.find (\<lambda>i. L < cmod (orbit c d i)) [1..<n + 1] = None"
    using assms by (intro find_upt_none) (auto simp: not_less)
  then show ?thesis by (simp add: calc_zeta_n_run_spec run_spec_def)
qed











section \<open>The step function\<close>


section \<open>The coordinate mapper\<close>

lemma py_int_nonneg: "0 \<le> x \<Longrightarrow> py_int x = \<lfloor>x\<rfloor>"
  by (simp add: py_int_def)

lemma abs_divide_pos: "0 < s \<Longrightarrow> \<bar>a / s\<bar> = \<bar>a\<bar> / (s::real)"
  by simp

lemma floor_between: "0 \<le> a \<Longrightarrow> a \<le> real_of_int k \<Longrightarrow> 0 \<le> \<lfloor>a\<rfloor> \<and> \<lfloor>a\<rfloor> \<le> k"
  by (simp add: floor_le_iff le_floor_iff)

lemma CONST_WIDTH_SPACING_value: "CONST_WIDTH_SPACING = 3 / 1500"
  by (simp add: CONST_WIDTH_SPACING_def CONST_MAX_WIDTH_def CONST_MIN_WIDTH_def
      CONST_WIDTH_RESOLUTION_def)

lemma CONST_HEIGHT_SPACING_value: "CONST_HEIGHT_SPACING = 2 / 1000"
  by (simp add: CONST_HEIGHT_SPACING_def CONST_MAX_HEIGHT_def CONST_MIN_HEIGHT_def
      CONST_HEIGHT_RESOLUTION_def)

lemma coord_to_pixel_eq:
  "coord_to_pixel (x, y) =
     (\<lfloor>\<bar>x - real_of_int CONST_MIN_WIDTH\<bar> / CONST_WIDTH_SPACING\<rfloor>,
      \<lfloor>\<bar>y - real_of_int CONST_MIN_HEIGHT\<bar> / CONST_HEIGHT_SPACING\<rfloor>)"
proof -
  have "0 < CONST_WIDTH_SPACING" "0 < CONST_HEIGHT_SPACING"
    by (simp_all add: CONST_WIDTH_SPACING_value CONST_HEIGHT_SPACING_value)
  then show ?thesis
    by (simp only: coord_to_pixel_def Let_def prod.case abs_divide_pos)
      (simp add: py_int_nonneg)
qed


lemma pixel_x_bound:
  assumes "real_of_int CONST_MIN_WIDTH \<le> x" and "x \<le> real_of_int CONST_MAX_WIDTH"
  shows "0 \<le> \<bar>x - real_of_int CONST_MIN_WIDTH\<bar> / CONST_WIDTH_SPACING"
    and "\<bar>x - real_of_int CONST_MIN_WIDTH\<bar> / CONST_WIDTH_SPACING \<le> real_of_int CONST_WIDTH_RESOLUTION"
  using assms
  by (simp_all add: CONST_WIDTH_SPACING_value CONST_MIN_WIDTH_def CONST_MAX_WIDTH_def
      CONST_WIDTH_RESOLUTION_def)

lemma pixel_y_bound:
  assumes "real_of_int CONST_MIN_HEIGHT \<le> y" and "y \<le> real_of_int CONST_MAX_HEIGHT"
  shows "0 \<le> \<bar>y - real_of_int CONST_MIN_HEIGHT\<bar> / CONST_HEIGHT_SPACING"
    and "\<bar>y - real_of_int CONST_MIN_HEIGHT\<bar> / CONST_HEIGHT_SPACING \<le> real_of_int CONST_HEIGHT_RESOLUTION"
  using assms
  by (simp_all add: CONST_HEIGHT_SPACING_value CONST_MIN_HEIGHT_def CONST_MAX_HEIGHT_def
      CONST_HEIGHT_RESOLUTION_def)

lemma pixel_x_max:
  "\<bar>real_of_int CONST_MAX_WIDTH - real_of_int CONST_MIN_WIDTH\<bar> / CONST_WIDTH_SPACING
     = real_of_int CONST_WIDTH_RESOLUTION"
  by (simp add: CONST_WIDTH_SPACING_value CONST_MIN_WIDTH_def CONST_MAX_WIDTH_def
      CONST_WIDTH_RESOLUTION_def)

lemma pixel_y_max:
  "\<bar>real_of_int CONST_MAX_HEIGHT - real_of_int CONST_MIN_HEIGHT\<bar> / CONST_HEIGHT_SPACING
     = real_of_int CONST_HEIGHT_RESOLUTION"
  by (simp add: CONST_HEIGHT_SPACING_value CONST_MIN_HEIGHT_def CONST_MAX_HEIGHT_def
      CONST_HEIGHT_RESOLUTION_def)

text \<open>
  C9. A coordinate of the region gets a pixel with \<open>0 \<le> px \<le> WIDTH_RES\<close> and
  \<open>0 \<le> py \<le> HEIGHT_RES\<close>; the upper bounds are reached at \<open>x = MAX_RE\<close> and at
  \<open>y = MAX_IM\<close>; so the pixel lies inside an image of \<open>WIDTH_RES + 1\<close> by
  \<open>HEIGHT_RES + 1\<close> pixels.
\<close>

theorem coord_to_pixel_in_image:
  assumes "real_of_int CONST_MIN_WIDTH \<le> x" and "x \<le> real_of_int CONST_MAX_WIDTH"
    and "real_of_int CONST_MIN_HEIGHT \<le> y" and "y \<le> real_of_int CONST_MAX_HEIGHT"
  shows "0 \<le> fst (coord_to_pixel (x, y)) \<and> fst (coord_to_pixel (x, y)) \<le> CONST_WIDTH_RESOLUTION
    \<and> 0 \<le> snd (coord_to_pixel (x, y)) \<and> snd (coord_to_pixel (x, y)) \<le> CONST_HEIGHT_RESOLUTION
    \<and> fst (coord_to_pixel (real_of_int CONST_MAX_WIDTH, y)) = CONST_WIDTH_RESOLUTION
    \<and> snd (coord_to_pixel (x, real_of_int CONST_MAX_HEIGHT)) = CONST_HEIGHT_RESOLUTION
    \<and> fst (coord_to_pixel (x, y)) < CONST_WIDTH_RESOLUTION + 1
    \<and> snd (coord_to_pixel (x, y)) < CONST_HEIGHT_RESOLUTION + 1"
proof -
  have px: "0 \<le> fst (coord_to_pixel (x, y)) \<and> fst (coord_to_pixel (x, y)) \<le> CONST_WIDTH_RESOLUTION"
    using floor_between [OF pixel_x_bound [OF assms(1,2)]] by (simp add: coord_to_pixel_eq)
  have py: "0 \<le> snd (coord_to_pixel (x, y)) \<and> snd (coord_to_pixel (x, y)) \<le> CONST_HEIGHT_RESOLUTION"
    using floor_between [OF pixel_y_bound [OF assms(3,4)]] by (simp add: coord_to_pixel_eq)
  have mx: "fst (coord_to_pixel (real_of_int CONST_MAX_WIDTH, y)) = CONST_WIDTH_RESOLUTION"
    by (simp only: coord_to_pixel_eq fst_conv pixel_x_max floor_of_int)
  have my: "snd (coord_to_pixel (x, real_of_int CONST_MAX_HEIGHT)) = CONST_HEIGHT_RESOLUTION"
    by (simp only: coord_to_pixel_eq snd_conv pixel_y_max floor_of_int)
  from px py mx my show ?thesis by simp
qed

theorem coord_to_pixel_in_image_witness:
  "real_of_int CONST_MIN_WIDTH \<le> 0 \<and> 0 \<le> real_of_int CONST_MAX_WIDTH
   \<and> real_of_int CONST_MIN_HEIGHT \<le> 1 / 2 \<and> 1 / 2 \<le> real_of_int CONST_MAX_HEIGHT
   \<and> coord_to_pixel (0, 1 / 2) = (1000, 750)
   \<and> fst (coord_to_pixel (0, 1 / 2)) \<le> CONST_WIDTH_RESOLUTION
   \<and> snd (coord_to_pixel (0, 1 / 2)) \<le> CONST_HEIGHT_RESOLUTION
   \<and> coord_to_pixel (1, 1) = (1500, 1000)"
proof -
  have h: "real_of_int CONST_MIN_WIDTH \<le> 0" "0 \<le> real_of_int CONST_MAX_WIDTH"
    "real_of_int CONST_MIN_HEIGHT \<le> 1 / 2" "1 / 2 \<le> real_of_int CONST_MAX_HEIGHT"
    by (simp_all add: CONST_MIN_WIDTH_def CONST_MAX_WIDTH_def CONST_MIN_HEIGHT_def CONST_MAX_HEIGHT_def)
  have v: "coord_to_pixel (0, 1 / 2) = (1000, 750)" "coord_to_pixel (1, 1) = (1500, 1000)"
    by (simp_all add: coord_to_pixel_eq CONST_WIDTH_SPACING_value CONST_HEIGHT_SPACING_value
        CONST_MIN_WIDTH_def CONST_MIN_HEIGHT_def)
  from coord_to_pixel_in_image [OF h] h v show ?thesis by simp
qed

section \<open>The colour ramp\<close>













section \<open>Brightness and the pixel colour\<close>

















end
